theory Spec2Isabelle
  imports Complex_Main
begin

text \<open>
  A model of the class \<open>AGMMRCalculator\<close> of the MMR service (\<open>main.ts\<close>): the
  rating store, the helpers that turn a rating change into an MMR delta, and
  \<open>processMatch\<close> with its two loops over the rosters. Every function of the class
  is a function here, under its own name; the callbacks of the loops are named
  after what they do (\<open>cacheTeam\<close>, \<open>convertPlayer\<close>, \<open>convertTeam\<close>).
\<close>

section \<open>Numbers, errors and lookups\<close>

text \<open>
  A JavaScript number is modelled as a real. The source can produce NaN at two
  places only, both a division \<open>0 / 0\<close> by the length of an empty array
  (\<open>calculateTeamSkill\<close> and the teammate average of \<open>calculateCarryAdjustment\<close>);
  there the quotient is a \<open>real option\<close> with \<open>None\<close> for NaN, and every
  comparison with NaN is false, as in the source. Rounding error, overflow and
  infinities are outside the model.
\<close>

definition Math_round :: "real \<Rightarrow> real" where
  \<comment> \<open>\<open>Math.round\<close>: the nearest integer, a tie going up.\<close>
  "Math_round x = of_int \<lfloor>x + 1 / 2\<rfloor>"

definition js_lt :: "real option \<Rightarrow> real option \<Rightarrow> bool" where
  \<comment> \<open>\<open>a < b\<close> on numbers that may be NaN.\<close>
  "js_lt a b = (case a of None \<Rightarrow> False | Some x \<Rightarrow> (case b of None \<Rightarrow> False | Some y \<Rightarrow> x < y))"

definition js_absdiff :: "real option \<Rightarrow> real option \<Rightarrow> real option" where
  \<comment> \<open>\<open>Math.abs(a - b)\<close> on numbers that may be NaN.\<close>
  "js_absdiff a b = (case a of None \<Rightarrow> None | Some x \<Rightarrow> (case b of None \<Rightarrow> None | Some y \<Rightarrow> Some \<bar>x - y\<bar>))"

datatype error = TypeError | MalformedMatchError | InsufficientDataError

text \<open>
  Reading \<open>previousMatchDetails[steamId]\<close>: the key may be missing (\<open>undefined\<close>),
  map to \<open>null\<close>, or map to a record.
\<close>

datatype 'a lookup = Undefined | Null | Found 'a

section \<open>Data\<close>

record Rating =
  mu :: real
  sigma :: real

record Player =
  steamID :: string
  skillMu :: real
  skillSigma :: real

text \<open>
  A match participation record. The combat statistics are read by the absent
  modules only and stay an opaque \<open>'s\<close>; the two output fields are unset (\<open>None\<close>)
  or hold a number.
\<close>

record 's MatchDetail =
  player :: Player
  stats :: 's
  mmrAfterMatch :: "real option"
  mmrDelta :: "real option"

record PlayerPerformance =
  score :: real
  adjustment :: real

type_synonym ratings = "string \<rightharpoonup> Rating"

type_synonym performances = "string \<rightharpoonup> PlayerPerformance"

text \<open>
  The functions \<open>processMatch\<close> imports from the modules \<open>./team\<close>, \<open>./performance\<close>
  and \<open>./rating\<close>, and from the openskill library, are not part of the calculator:
  they are parameters of the model. A function of the repository may raise; the
  rating oracle \<open>rate\<close> of the library is total (its constructor \<open>rating\<close> is
  the first argument of \<open>ensurePlayerRatings\<close> below). An argument that can be
  \<open>undefined\<close> at the call is an option.
\<close>

record 's env =
  organizeTeams :: "'s MatchDetail list \<Rightarrow> error + ('s MatchDetail list \<times> 's MatchDetail list)"
  determineWinner :: "'s MatchDetail list \<Rightarrow> 's MatchDetail list \<Rightarrow> error + string"
  calculateIndividualPerformance :: "'s MatchDetail \<Rightarrow> 's MatchDetail list \<Rightarrow> error + PlayerPerformance"
  calculatePerformanceAdjustment :: "PlayerPerformance option \<Rightarrow> bool \<Rightarrow> nat \<Rightarrow> error + real"
  calculateSkillProxy :: "'s MatchDetail \<Rightarrow> error + real"
  calculateInitialRating :: "real \<Rightarrow> error + Rating"
  calculateInitialMMR :: "Rating option \<Rightarrow> PlayerPerformance option \<Rightarrow> error + real"
  rate :: "Rating list list \<Rightarrow> nat list \<Rightarrow> Rating list list"

section \<open>The rating store\<close>

definition ensurePlayerRatings :: "(real \<Rightarrow> real \<Rightarrow> Rating) \<Rightarrow> Player list \<Rightarrow> ratings \<Rightarrow> ratings" where
  "ensurePlayerRatings mk players playerRatings =
     fold (\<lambda>p s. s(steamID p \<mapsto> mk (skillMu p) (skillSigma p))) players playerRatings"

definition getOrCreatePlayerRating ::
  "'s env \<Rightarrow> ratings \<Rightarrow> string \<Rightarrow> 's MatchDetail \<Rightarrow> error + (Rating \<times> ratings)" where
  "getOrCreatePlayerRating E playerRatings sid matchDetail =
     (case playerRatings sid of
        Some r \<Rightarrow> Inr (r, playerRatings)
      | None \<Rightarrow>
          (case calculateSkillProxy E matchDetail of
             Inl e \<Rightarrow> Inl e
           | Inr skillProxy \<Rightarrow>
               (case calculateInitialRating E skillProxy of
                  Inl e \<Rightarrow> Inl e
                | Inr initialRating \<Rightarrow> Inr (initialRating, playerRatings(sid \<mapsto> initialRating)))))"

text \<open>\<open>team.map((match) => this.getOrCreatePlayerRating(match.player.steamID, match))\<close>\<close>

fun teamRatings :: "'s env \<Rightarrow> ratings \<Rightarrow> 's MatchDetail list \<Rightarrow> error + (Rating list \<times> ratings)" where
  "teamRatings E playerRatings [] = Inr ([], playerRatings)"
| "teamRatings E playerRatings (m # ms) =
     (case getOrCreatePlayerRating E playerRatings (steamID (player m)) m of
        Inl e \<Rightarrow> Inl e
      | Inr (r, s) \<Rightarrow>
          (case teamRatings E s ms of
             Inl e \<Rightarrow> Inl e
           | Inr (rs, s') \<Rightarrow> Inr (r # rs, s')))"

section \<open>The pure helpers of the calculator\<close>

definition calculateTeamSkill :: "Rating list \<Rightarrow> real option" where
  \<comment> \<open>\<open>totalMu / ratings.length\<close>; NaN for the empty array.\<close>
  "calculateTeamSkill rs =
     (if rs = [] then None else Some (sum_list (map mu rs) / real (length rs)))"

definition convertRatingChangeToMMR :: "Rating option \<Rightarrow> Rating option \<Rightarrow> error + real" where
  \<comment> \<open>Reading \<open>.mu\<close> of \<open>undefined\<close> raises TypeError; \<open>newRating.mu\<close> is read first.\<close>
  "convertRatingChangeToMMR oldRating newRating =
     (case newRating of
        None \<Rightarrow> Inl TypeError
      | Some n \<Rightarrow>
          (case oldRating of
             None \<Rightarrow> Inl TypeError
           | Some ol \<Rightarrow>
               (let muChange = mu n - mu ol;
                    sigmaReduction = max 0 (sigma ol - sigma n)
                in Inr (muChange * 5 + sigmaReduction * 1.5))))"

definition calculateBalanceFactor :: "real option \<Rightarrow> bool \<Rightarrow> real option \<Rightarrow> real option \<Rightarrow> real" where
  \<comment> \<open>\<open>skillDifference > 3\<close> is false for NaN, and the factor stays 1.\<close>
  "calculateBalanceFactor skillDifference isWinner playerTeamSkill opponentTeamSkill =
     (let factor =
        (case skillDifference of
           None \<Rightarrow> 1
         | Some d \<Rightarrow>
             if d > 3 then
               (let isUpset =
                      (isWinner \<and> js_lt playerTeamSkill opponentTeamSkill) \<or>
                      (\<not> isWinner \<and> js_lt opponentTeamSkill playerTeamSkill)
                in if isUpset then 1.3 + min 0.4 (d / 10) else 0.8 - min 0.2 (d / 15))
             else 1)
      in max 0.5 (min 1.8 factor))"

definition clampMMRDelta :: "real \<Rightarrow> bool \<Rightarrow> real" where
  "clampMMRDelta d isWinner =
     (if isWinner then max 2 (min 40 d) else max (- 40) (min (- 2) d))"

text \<open>\<open>xs.map(f)\<close> with an \<open>f\<close> that may raise: the first error ends the map.\<close>

fun mapE :: "('a \<Rightarrow> error + 'b) \<Rightarrow> 'a list \<Rightarrow> error + 'b list" where
  "mapE f [] = Inr []"
| "mapE f (x # xs) =
     (case f x of
        Inl e \<Rightarrow> Inl e
      | Inr y \<Rightarrow> (case mapE f xs of Inl e \<Rightarrow> Inl e | Inr ys \<Rightarrow> Inr (y # ys)))"

text \<open>
  \<open>calculateCarryAdjustment\<close>, with the evaluator it calls as first argument. With no
  teammate left the average is \<open>0 / 0\<close>, NaN: none of the three comparisons holds
  and \<open>Math.round(0)\<close> is returned. \<open>playerPerformance.score\<close> is read after the
  teammates' performances are computed, and raises TypeError on \<open>undefined\<close>.
\<close>

definition calculateCarryAdjustment ::
  "('s MatchDetail \<Rightarrow> 's MatchDetail list \<Rightarrow> error + PlayerPerformance) \<Rightarrow>
   's MatchDetail \<Rightarrow> 's MatchDetail list \<Rightarrow> PlayerPerformance option \<Rightarrow> bool \<Rightarrow> error + real" where
  "calculateCarryAdjustment evaluate playerMatch team playerPerformance isWinner =
     (if length team < 2 then Inr 0
      else
        (let teammates = filter (\<lambda>t. steamID (player t) \<noteq> steamID (player playerMatch)) team
         in case mapE (\<lambda>teammate. evaluate teammate (team @ teammates)) teammates of
              Inl e \<Rightarrow> Inl e
            | Inr teammatePerformances \<Rightarrow>
                (case playerPerformance of
                   None \<Rightarrow> Inl TypeError
                 | Some pp \<Rightarrow>
                     if teammatePerformances = [] then Inr (Math_round 0)
                     else
                       (let teammateAvgPerformance =
                              sum_list (map score teammatePerformances) /
                              real (length teammatePerformances);
                            performanceDifference = score pp - teammateAvgPerformance
                        in if \<bar>performanceDifference\<bar> < 0.4 then Inr 0
                           else
                             (let carryAdjustment =
                                (if performanceDifference > 0.4 then
                                   (if \<not> isWinner then min 18 (performanceDifference * 12)
                                    else min 8 (performanceDifference * 4))
                                 else if performanceDifference < - 0.4 then
                                   (if isWinner then max (- 12) (performanceDifference * 8)
                                    else max (- 10) (performanceDifference * 6))
                                 else 0)
                              in Inr (Math_round carryAdjustment))))))"

section \<open>processMatch\<close>

definition elemAt :: "'a list \<Rightarrow> nat \<Rightarrow> 'a option" where
  \<comment> \<open>\<open>xs[i]\<close>, \<open>undefined\<close> out of range.\<close>
  "elemAt xs i = (if i < length xs then Some (xs ! i) else None)"

definition newRatingAt :: "Rating list list \<Rightarrow> nat \<Rightarrow> nat \<Rightarrow> Rating option" where
  \<comment> \<open>\<open>newRatings[teamIdx]?.[idx]\<close>\<close>
  "newRatingAt newRatings teamIdx idx =
     (case elemAt newRatings teamIdx of None \<Rightarrow> None | Some row \<Rightarrow> elemAt row idx)"

text \<open>
  The loop that fills \<open>playerPerformances\<close>: every record of the match is scored
  against the whole match, and stored under its player's id.
\<close>

fun scoreAll ::
  "('s MatchDetail \<Rightarrow> 's MatchDetail list \<Rightarrow> error + PlayerPerformance) \<Rightarrow>
   's MatchDetail list \<Rightarrow> 's MatchDetail list \<Rightarrow> performances \<Rightarrow> error + performances" where
  "scoreAll evaluate matchDetails [] perfs = Inr perfs"
| "scoreAll evaluate matchDetails (m # ms) perfs =
     (case evaluate m matchDetails of
        Inl e \<Rightarrow> Inl e
      | Inr performance \<Rightarrow>
          scoreAll evaluate matchDetails ms (perfs(steamID (player m) \<mapsto> performance)))"

text \<open>
  The first loop over the two teams (the write-back of the oracle's ratings): the
  inner \<open>forEach\<close> over one team, from index \<open>idx\<close> on.
\<close>

fun cacheTeam :: "Rating list list \<Rightarrow> nat \<Rightarrow> nat \<Rightarrow> 's MatchDetail list \<Rightarrow> ratings \<Rightarrow> ratings" where
  "cacheTeam newRatings teamIdx idx [] playerRatings = playerRatings"
| "cacheTeam newRatings teamIdx idx (m # ms) playerRatings =
     cacheTeam newRatings teamIdx (Suc idx) ms
       (case newRatingAt newRatings teamIdx idx of
          Some newRating \<Rightarrow> playerRatings(steamID (player m) \<mapsto> newRating)
        | None \<Rightarrow> playerRatings)"

definition cacheRatings ::
  "Rating list list \<Rightarrow> 's MatchDetail list \<Rightarrow> 's MatchDetail list \<Rightarrow> ratings \<Rightarrow> ratings" where
  "cacheRatings newRatings blueTeam redTeam playerRatings =
     cacheTeam newRatings 1 0 redTeam (cacheTeam newRatings 0 0 blueTeam playerRatings)"

text \<open>The variables of \<open>processMatch\<close> that the second loop's callback reads.\<close>

record 's scope =
  previousMatchDetails :: "string \<Rightarrow> 's MatchDetail lookup"
  winner :: string
  blueRatings :: "Rating list"
  redRatings :: "Rating list"
  newRatings :: "Rating list list"
  blueAvgSkill :: "real option"
  redAvgSkill :: "real option"
  skillDifference :: "real option"

definition previousMMR_of :: "'s MatchDetail lookup \<Rightarrow> real" where
  \<comment> \<open>\<open>previousMatchDetail?.mmrAfterMatch ?? 0\<close>\<close>
  "previousMMR_of previousMatchDetail =
     (case previousMatchDetail of
        Found d \<Rightarrow> (case mmrAfterMatch d of Some v \<Rightarrow> v | None \<Rightarrow> 0)
      | _ \<Rightarrow> 0)"

definition isWinner_of :: "string \<Rightarrow> nat \<Rightarrow> bool" where
  "isWinner_of w teamIdx = ((w = ''blue'' \<and> teamIdx = 0) \<or> (w = ''red'' \<and> teamIdx = 1))"

text \<open>
  The callback of the second loop, for the record at \<open>idx\<close> of \<open>team\<close>. It returns
  the record as written and \<open>playerPerformances\<close> after the assignment to
  \<open>performance.adjustment\<close>, which raises TypeError when the player has no
  performance.
\<close>

definition convertPlayer ::
  "'s env \<Rightarrow> 's scope \<Rightarrow> nat \<Rightarrow> 's MatchDetail list \<Rightarrow> performances \<Rightarrow> nat \<Rightarrow>
   error + ('s MatchDetail \<times> performances)" where
  "convertPlayer E V teamIdx team playerPerformances idx =
     (let match = team ! idx;
          steamId = steamID (player match);
          previousMatchDetail = previousMatchDetails V steamId;
          isFirstMatch = (previousMatchDetail = Null);
          previousMMR = previousMMR_of previousMatchDetail;
          isWinner = isWinner_of (winner V) teamIdx;
          oldRating = (if teamIdx = 0 then elemAt (blueRatings V) idx else elemAt (redRatings V) idx);
          newRating = newRatingAt (newRatings V) teamIdx idx;
          performance = playerPerformances steamId
      in if isFirstMatch then
           (case calculateInitialMMR E newRating performance of
              Inl e \<Rightarrow> Inl e
            | Inr mmrAfter \<Rightarrow>
                Inr (match\<lparr>mmrAfterMatch := Some mmrAfter, mmrDelta := Some mmrAfter\<rparr>,
                     playerPerformances))
         else
           (case convertRatingChangeToMMR oldRating newRating of
              Inl e \<Rightarrow> Inl e
            | Inr baseMMRChange \<Rightarrow>
           (case calculatePerformanceAdjustment E performance isWinner (length team) of
              Inl e \<Rightarrow> Inl e
            | Inr performanceAdjustment \<Rightarrow>
           (let balanceFactor =
                  calculateBalanceFactor (skillDifference V) isWinner
                    (if teamIdx = 0 then blueAvgSkill V else redAvgSkill V)
                    (if teamIdx = 0 then redAvgSkill V else blueAvgSkill V)
            in case calculateCarryAdjustment (calculateIndividualPerformance E)
                      match team performance isWinner of
                 Inl e \<Rightarrow> Inl e
               | Inr carryAdjustment \<Rightarrow>
                   (case performance of
                      None \<Rightarrow> Inl TypeError
                    | Some pp \<Rightarrow>
                        (let delta =
                               clampMMRDelta
                                 (Math_round
                                    ((baseMMRChange + performanceAdjustment + carryAdjustment) *
                                     balanceFactor))
                                 isWinner;
                             mmrAfter = max 0 (previousMMR + delta)
                         in Inr (match\<lparr>mmrAfterMatch := Some mmrAfter, mmrDelta := Some delta\<rparr>,
                                 playerPerformances(steamId \<mapsto>
                                   pp\<lparr>adjustment := performanceAdjustment + carryAdjustment\<rparr>))))))))"

text \<open>
  The inner \<open>forEach\<close> of the second loop over the indices \<open>idxs\<close>: the records are
  objects, so a write is seen by the later calls that read \<open>team\<close>.
\<close>

fun convertTeam ::
  "'s env \<Rightarrow> 's scope \<Rightarrow> nat \<Rightarrow> nat list \<Rightarrow> 's MatchDetail list \<Rightarrow> performances \<Rightarrow>
   error + ('s MatchDetail list \<times> performances)" where
  "convertTeam E V teamIdx [] team perfs = Inr (team, perfs)"
| "convertTeam E V teamIdx (idx # idxs) team perfs =
     (case convertPlayer E V teamIdx team perfs idx of
        Inl e \<Rightarrow> Inl e
      | Inr (m, perfs') \<Rightarrow> convertTeam E V teamIdx idxs (team[idx := m]) perfs')"

text \<open>
  The result of a call that returns: the records are updated in place and the
  returned \<open>matchDetails\<close> holds the very records of the two rosters, so the model
  returns the rosters after the writes, together with the rating store. A roster
  is a list of record values: two entries of the rosters are taken to be two
  objects. A call that raises returns the error alone; what it has written to
  the rating store by then is not part of the model's result.
\<close>

record 's outcome =
  blueOut :: "'s MatchDetail list"
  redOut :: "'s MatchDetail list"
  ratingsOut :: ratings

definition processMatch ::
  "'s env \<Rightarrow> ratings \<Rightarrow> 's MatchDetail list \<Rightarrow> (string \<Rightarrow> 's MatchDetail lookup) \<Rightarrow>
   error + 's outcome" where
  "processMatch E playerRatings matchDetails prev =
     (case organizeTeams E matchDetails of
        Inl e \<Rightarrow> Inl e
      | Inr (blueTeam, redTeam) \<Rightarrow>
     (case teamRatings E playerRatings blueTeam of
        Inl e \<Rightarrow> Inl e
      | Inr (blueR, s1) \<Rightarrow>
     (case teamRatings E s1 redTeam of
        Inl e \<Rightarrow> Inl e
      | Inr (redR, s2) \<Rightarrow>
     (let blueAvg = calculateTeamSkill blueR;
          redAvg = calculateTeamSkill redR
      in case determineWinner E blueTeam redTeam of
           Inl e \<Rightarrow> Inl e
         | Inr w \<Rightarrow>
     (case scoreAll (calculateIndividualPerformance E) matchDetails matchDetails Map.empty of
        Inl e \<Rightarrow> Inl e
      | Inr perfs \<Rightarrow>
     (let newR = (if w = ''blue'' then rate E [blueR, redR] [1, 2]
                  else rate E [blueR, redR] [2, 1]);
          s3 = cacheRatings newR blueTeam redTeam s2;
          V = \<lparr>previousMatchDetails = prev, winner = w, blueRatings = blueR,
               redRatings = redR, newRatings = newR, blueAvgSkill = blueAvg,
               redAvgSkill = redAvg, skillDifference = js_absdiff blueAvg redAvg\<rparr>
      in case convertTeam E V 0 [0..<length blueTeam] blueTeam perfs of
           Inl e \<Rightarrow> Inl e
         | Inr (blue', perfs1) \<Rightarrow>
     (case convertTeam E V 1 [0..<length redTeam] redTeam perfs1 of
        Inl e \<Rightarrow> Inl e
      | Inr (red', perfs2) \<Rightarrow>
          Inr \<lparr>blueOut = blue', redOut = red', ratingsOut = s3\<rparr>)))))))"

section \<open>What the second loop writes\<close>

text \<open>
  The state of a record after the callback of the second loop has run for it, in
  terms of the record \<open>orig\<close> before the call, the performances \<open>perfs\<close> computed
  for the match, and the position \<open>(teamIdx, idx)\<close> of the record.
\<close>

definition recordWritten ::
  "'s env \<Rightarrow> 's scope \<Rightarrow> nat \<Rightarrow> performances \<Rightarrow> nat \<Rightarrow> 's MatchDetail \<Rightarrow> 's MatchDetail \<Rightarrow> bool" where
  "recordWritten E V teamIdx perfs idx orig m =
     (player m = player orig \<and> stats m = stats orig \<and>
      (let sid = steamID (player orig)
       in if previousMatchDetails V sid = Null then
            (case calculateInitialMMR E (newRatingAt (newRatings V) teamIdx idx) (perfs sid) of
               Inl e \<Rightarrow> False
             | Inr v \<Rightarrow> mmrAfterMatch m = Some v \<and> mmrDelta m = Some v)
          else
            (case mmrDelta m of
               None \<Rightarrow> False
             | Some d \<Rightarrow>
                 mmrAfterMatch m = Some (max 0 (previousMMR_of (previousMatchDetails V sid) + d)) \<and>
                 (\<exists>x. d = clampMMRDelta (Math_round x) (isWinner_of (winner V) teamIdx)))))"

section \<open>Concrete matches\<close>

definition mkRating :: "real \<Rightarrow> real \<Rightarrow> Rating" where
  \<comment> \<open>openskill's \<open>rating\<close> on two given numbers.\<close>
  "mkRating m s = \<lparr>mu = m, sigma = s\<rparr>"

text \<open>
  A participation record whose statistics are one number, evaluators that read
  it as the score, and an oracle that moves every mu by one point.
\<close>

definition participation :: "string \<Rightarrow> real \<Rightarrow> real MatchDetail" where
  "participation sid x =
     \<lparr>player = \<lparr>steamID = sid, skillMu = 25, skillSigma = 8\<rparr>, stats = x,
      mmrAfterMatch = None, mmrDelta = None\<rparr>"

definition scoreOfStats :: "real MatchDetail \<Rightarrow> real MatchDetail list \<Rightarrow> error + PlayerPerformance" where
  "scoreOfStats m population = Inr \<lparr>score = stats m, adjustment = 0\<rparr>"

definition needsPopulation :: "real MatchDetail \<Rightarrow> real MatchDetail list \<Rightarrow> error + PlayerPerformance" where
  \<comment> \<open>An evaluator that raises InsufficientDataError exactly on an empty comparison population.\<close>
  "needsPopulation m population =
     (if population = [] then Inl InsufficientDataError
      else Inr \<lparr>score = stats m, adjustment = 0\<rparr>)"

definition raisesAtFive :: "real MatchDetail \<Rightarrow> real MatchDetail list \<Rightarrow> error + PlayerPerformance" where
  \<comment> \<open>An evaluator that raises on a comparison population of five records, and on no other.\<close>
  "raisesAtFive m population =
     (if length population = 5 then Inl MalformedMatchError
      else Inr \<lparr>score = stats m, adjustment = 0\<rparr>)"

definition scoreOfSize :: "real MatchDetail \<Rightarrow> real MatchDetail list \<Rightarrow> error + PlayerPerformance" where
  \<comment> \<open>An evaluator whose score is the size of the comparison population.\<close>
  "scoreOfSize m population = Inr \<lparr>score = real (length population), adjustment = 0\<rparr>"

definition winnerUp :: "Rating list list \<Rightarrow> nat list \<Rightarrow> Rating list list" where
  "winnerUp teams ranks =
     map2 (\<lambda>team rk. map (\<lambda>r. \<lparr>mu = (if rk = 1 then mu r + 1 else mu r - 1), sigma = sigma r - 1\<rparr>) team)
       teams ranks"

definition env0 :: "real env" where
  "env0 =
     \<lparr>organizeTeams = (\<lambda>md. Inr (take 2 md, drop 2 md)),
      determineWinner = (\<lambda>blue red. Inr ''blue''),
      calculateIndividualPerformance = scoreOfStats,
      calculatePerformanceAdjustment = (\<lambda>p w n. Inr 0),
      calculateSkillProxy = (\<lambda>m. Inr (stats m)),
      calculateInitialRating = (\<lambda>x. Inr (mkRating (25 * x) 8)),
      calculateInitialMMR =
        (\<lambda>r p. case r of None \<Rightarrow> Inl TypeError | Some r' \<Rightarrow> Inr (max 0 (mu r' * 40))),
      rate = winnerUp\<rparr>"

text \<open>
  A two-against-two match: \<open>b1\<close>, \<open>b2\<close> and \<open>r1\<close> are established, \<open>r2\<close> plays a
  first match and has no stored rating; \<open>r1\<close> enters with an MMR of 1.
\<close>

definition match0 :: "real MatchDetail list" where
  "match0 = [participation ''b1'' 2, participation ''b2'' 1,
             participation ''r1'' 1, participation ''r2'' 1]"

definition store0 :: ratings where
  "store0 = [''b1'' \<mapsto> mkRating 25 5, ''b2'' \<mapsto> mkRating 24 5, ''r1'' \<mapsto> mkRating 20 6]"

definition prev0 :: "string \<Rightarrow> real MatchDetail lookup" where
  "prev0 sid =
     (if sid = ''r2'' then Null
      else if sid = ''r1'' then Found ((participation sid 1)\<lparr>mmrAfterMatch := Some 1\<rparr>)
      else Found ((participation sid 1)\<lparr>mmrAfterMatch := Some 1000\<rparr>))"

definition out0 :: "real outcome" where
  "out0 =
     \<lparr>blueOut = [(participation ''b1'' 2)\<lparr>mmrAfterMatch := Some 1011, mmrDelta := Some 11\<rparr>,
                 (participation ''b2'' 1)\<lparr>mmrAfterMatch := Some 1002, mmrDelta := Some 2\<rparr>],
      redOut = [(participation ''r1'' 1)\<lparr>mmrAfterMatch := Some 0, mmrDelta := Some (- 3)\<rparr>,
                (participation ''r2'' 1)\<lparr>mmrAfterMatch := Some 960, mmrDelta := Some 960\<rparr>],
      ratingsOut = [''b1'' \<mapsto> mkRating 26 4, ''b2'' \<mapsto> mkRating 25 4,
                    ''r1'' \<mapsto> mkRating 19 5, ''r2'' \<mapsto> mkRating 24 7]\<rparr>"

text \<open>
  The performances of that match, and the variables the second loop reads in it.
\<close>

definition performances0 :: performances where
  "performances0 =
     [''b1'' \<mapsto> \<lparr>score = 2, adjustment = 0\<rparr>, ''b2'' \<mapsto> \<lparr>score = 1, adjustment = 0\<rparr>,
      ''r1'' \<mapsto> \<lparr>score = 1, adjustment = 0\<rparr>, ''r2'' \<mapsto> \<lparr>score = 1, adjustment = 0\<rparr>]"

definition scope0 :: "real scope" where
  "scope0 =
     \<lparr>previousMatchDetails = prev0, winner = ''blue'',
      blueRatings = [mkRating 25 5, mkRating 24 5],
      redRatings = [mkRating 20 6, mkRating 25 8],
      newRatings = [[mkRating 26 4, mkRating 25 4], [mkRating 19 5, mkRating 24 7]],
      blueAvgSkill = Some (49 / 2), redAvgSkill = Some (45 / 2),
      skillDifference = Some 2\<rparr>"

text \<open>
  A one-against-one match of two established players, and an oracle that returns
  no rating for the blue team.
\<close>

definition shortOracle :: "Rating list list \<Rightarrow> nat list \<Rightarrow> Rating list list" where
  "shortOracle teams ranks = [[], [mkRating 19 5]]"

definition env9 :: "real env" where
  "env9 = env0\<lparr>organizeTeams := (\<lambda>md. Inr (take 1 md, drop 1 md)), rate := shortOracle\<rparr>"

definition match9 :: "real MatchDetail list" where
  "match9 = [participation ''b1'' 2, participation ''r1'' 1]"

text \<open>The same environment with the evaluator that raises on an empty population.\<close>

definition envP :: "real env" where
  "envP = env0\<lparr>calculateIndividualPerformance := needsPopulation\<rparr>"

section \<open>The rating store: ensurePlayerRatings\<close>

lemma ensure_as_override:
  "ensurePlayerRatings mk players s =
     s ++ map_of (rev (map (\<lambda>p. (steamID p, mk (skillMu p) (skillSigma p))) players))"
proof (induction players arbitrary: s)
  case Nil
  show ?case by (simp add: ensurePlayerRatings_def)
next
  case (Cons p ps)
  let ?kv = "\<lambda>p. (steamID p, mk (skillMu p) (skillSigma p))"
  have "ensurePlayerRatings mk (p # ps) s =
          ensurePlayerRatings mk ps (s(steamID p \<mapsto> mk (skillMu p) (skillSigma p)))"
    by (simp add: ensurePlayerRatings_def)
  also have "\<dots> = s(steamID p \<mapsto> mk (skillMu p) (skillSigma p)) ++ map_of (rev (map ?kv ps))"
    by (rule Cons.IH)
  also have "\<dots> = s ++ map_of (rev (map ?kv (p # ps)))"
    by (rule ext) (simp add: map_add_def split: option.splits)
  finally show ?case .
qed

text \<open>
  C1, as the code has it. \<open>ensurePlayerRatings\<close> has no presence check: it sets the
  entry of every listed player to the rating built from that player's \<open>skillMu\<close>
  and \<open>skillSigma\<close>, whatever was stored (the last record of an id wins); the
  entry of an id that is not listed is unchanged; and a second call with the same
  list leaves the store as the first call left it.
\<close>

theorem ensurePlayerRatings_overwrites:
  "(sid \<notin> steamID ` set players \<longrightarrow> ensurePlayerRatings mk players s sid = s sid) \<and>
   (players = before @ p # after \<and> steamID p \<notin> steamID ` set after \<longrightarrow>
      ensurePlayerRatings mk players s (steamID p) = Some (mk (skillMu p) (skillSigma p))) \<and>
   ensurePlayerRatings mk players (ensurePlayerRatings mk players s) =
     ensurePlayerRatings mk players s"
proof (intro conjI impI)
  assume "sid \<notin> steamID ` set players"
  then have "map_of (rev (map (\<lambda>p. (steamID p, mk (skillMu p) (skillSigma p))) players)) sid = None"
    by (simp add: map_of_eq_None_iff image_image)
  then show "ensurePlayerRatings mk players s sid = s sid"
    by (simp add: ensure_as_override map_add_def)
next
  assume a: "players = before @ p # after \<and> steamID p \<notin> steamID ` set after"
  let ?kv = "\<lambda>p. (steamID p, mk (skillMu p) (skillSigma p))"
  have "map_of (rev (map ?kv after)) (steamID p) = None"
    using a by (simp add: map_of_eq_None_iff image_image)
  then have "map_of (rev (map ?kv players)) (steamID p) = Some (mk (skillMu p) (skillSigma p))"
    using a by (simp add: map_add_def)
  then show "ensurePlayerRatings mk players s (steamID p) = Some (mk (skillMu p) (skillSigma p))"
    by (simp add: ensure_as_override map_add_def)
next
  show "ensurePlayerRatings mk players (ensurePlayerRatings mk players s) =
     ensurePlayerRatings mk players s"
    by (simp add: ensure_as_override) (rule ext, simp add: map_add_def split: option.splits)
qed

theorem ensurePlayerRatings_overwrites_witness:
  "ensurePlayerRatings mkRating
     [\<lparr>steamID = ''a'', skillMu = 25, skillSigma = 8\<rparr>, \<lparr>steamID = ''b'', skillMu = 20, skillSigma = 6\<rparr>]
     [''c'' \<mapsto> mkRating 30 2] ''c'' = Some (mkRating 30 2) \<and>
   ensurePlayerRatings mkRating
     [\<lparr>steamID = ''a'', skillMu = 25, skillSigma = 8\<rparr>, \<lparr>steamID = ''b'', skillMu = 20, skillSigma = 6\<rparr>]
     [''c'' \<mapsto> mkRating 30 2] ''b'' = Some (mkRating 20 6)"
  using ensurePlayerRatings_overwrites
    [where sid = "''c''" and mk = mkRating and s = "[''c'' \<mapsto> mkRating 30 2]"
       and players = "[\<lparr>steamID = ''a'', skillMu = 25, skillSigma = 8\<rparr>,
                       \<lparr>steamID = ''b'', skillMu = 20, skillSigma = 6\<rparr>]"
       and before = "[\<lparr>steamID = ''a'', skillMu = 25, skillSigma = 8\<rparr>]"
       and p = "\<lparr>steamID = ''b'', skillMu = 20, skillSigma = 6\<rparr>" and after = "[]"]
  by simp

text \<open>
  C1, as the specification states it, fails: player \<open>a\<close> is stored with rating
  (30, 2), and a call that lists \<open>a\<close> with (25, 8) replaces the stored rating.
\<close>

theorem ensurePlayerRatings_counterexample:
  "ensurePlayerRatings mkRating
     [\<lparr>steamID = ''a'', skillMu = 25, skillSigma = 8\<rparr>]
     [''a'' \<mapsto> \<lparr>mu = 30, sigma = 2\<rparr>] ''a'' = Some \<lparr>mu = 25, sigma = 8\<rparr> \<and>
   [''a'' \<mapsto> \<lparr>mu = 30, sigma = 2\<rparr>] ''a'' = Some \<lparr>mu = 30, sigma = 2\<rparr>"
  by (simp add: ensurePlayerRatings_def mkRating_def)

section \<open>The balance factor\<close>

text \<open>
  C5. The balance factor lies in [0.5, 1.8]. It is 1 when the skill difference is
  at most 3. Above 3 it is \<open>1.3 + min 0.4 (d / 10)\<close> for an upset (the player won
  on the team of lower average, or lost on the team of higher average) and
  \<open>0.8 - min 0.2 (d / 15)\<close> otherwise; the final clamp to [0.5, 1.8] leaves both
  values as they are.
\<close>

theorem calculateBalanceFactor_range:
  "1 / 2 \<le> calculateBalanceFactor sd w p opp \<and> calculateBalanceFactor sd w p opp \<le> 9 / 5 \<and>
   (sd = Some d \<and> d \<le> 3 \<longrightarrow> calculateBalanceFactor sd w p opp = 1) \<and>
   (sd = Some d \<and> 3 < d \<and> ((w \<and> js_lt p opp) \<or> (\<not> w \<and> js_lt opp p)) \<longrightarrow>
      calculateBalanceFactor sd w p opp = max 0.5 (min 1.8 (1.3 + min 0.4 (d / 10))) \<and>
      calculateBalanceFactor sd w p opp = 1.3 + min 0.4 (d / 10)) \<and>
   (sd = Some d \<and> 3 < d \<and> \<not> ((w \<and> js_lt p opp) \<or> (\<not> w \<and> js_lt opp p)) \<longrightarrow>
      calculateBalanceFactor sd w p opp = max 0.5 (min 1.8 (0.8 - min 0.2 (d / 15))) \<and>
      calculateBalanceFactor sd w p opp = 0.8 - min 0.2 (d / 15))"
  unfolding calculateBalanceFactor_def Let_def
  by (cases sd) (auto simp: min_def max_def)

theorem calculateBalanceFactor_range_witness:
  "calculateBalanceFactor (Some 2) True (Some 25) (Some 27) = 1 \<and>
   calculateBalanceFactor (Some 5) True (Some 20) (Some 25) = 1.7 \<and>
   calculateBalanceFactor (Some 5) True (Some 25) (Some 20) = 0.6"
  using calculateBalanceFactor_range [of "Some 2" True "Some 25" "Some 27" 2]
    calculateBalanceFactor_range [of "Some 5" True "Some 20" "Some 25" 5]
    calculateBalanceFactor_range [of "Some 5" True "Some 25" "Some 20" 5]
  by (simp add: js_lt_def)

section \<open>Rounding, clamping and the error-aware map\<close>

lemma Math_round_zero: "Math_round 0 = 0"
  by (simp add: Math_round_def)

lemma Math_round_nearest:
  "Math_round x \<in> \<int> \<and> x - 1 / 2 < Math_round x \<and> Math_round x \<le> x + 1 / 2"
  unfolding Math_round_def by (simp; linarith)

lemma clampMMRDelta_bounds:
  "(w \<longrightarrow> 2 \<le> clampMMRDelta d w \<and> clampMMRDelta d w \<le> 40) \<and>
   (\<not> w \<longrightarrow> - 40 \<le> clampMMRDelta d w \<and> clampMMRDelta d w \<le> - 2)"
  by (simp add: clampMMRDelta_def)

lemma mapE_cong:
  "(\<And>x. x \<in> set xs \<Longrightarrow> f x = g x) \<Longrightarrow> mapE f xs = mapE g xs"
  by (induction xs) (auto split: sum.splits)

lemma mapE_length: "mapE f xs = Inr ys \<Longrightarrow> length ys = length xs"
  by (induction xs arbitrary: ys) (auto split: sum.splits)

lemma mapE_Inl_iff:
  "(\<exists>e. mapE f xs = Inl e) \<longleftrightarrow> (\<exists>x \<in> set xs. \<exists>e. f x = Inl e)"
  by (induction xs) (auto split: sum.splits)

section \<open>The carry adjustment\<close>

text \<open>
  C6. The carry adjustment is 0 for a team of fewer than two records. With
  \<open>diff\<close> the player's score minus the average score of the teammates, it is 0
  when \<open>\<bar>diff\<bar> < 0.4\<close>, and beyond the dead zone it is the rounded value of the
  quadrant: \<open>min 18 (diff * 12)\<close> for a player who outperformed (\<open>diff > 0.4\<close>) and
  lost, \<open>min 8 (diff * 4)\<close> for one who outperformed and won,
  \<open>max (- 12) (diff * 8)\<close> for one who underperformed (\<open>diff < - 0.4\<close>) and won,
  \<open>max (- 10) (diff * 6)\<close> for one who underperformed and lost. On the edge
  \<open>\<bar>diff\<bar> = 0.4\<close> no quadrant applies and the adjustment is 0. The rounding
  yields an integer at distance at most one half.
\<close>

theorem calculateCarryAdjustment_quadrants:
  assumes "teammates = filter (\<lambda>t. steamID (player t) \<noteq> steamID (player m)) team"
    and "mapE (\<lambda>t. ev t (team @ teammates)) teammates = Inr tps"
    and "diff = score pp - sum_list (map score tps) / real (length tps)"
  shows
    "(length team < 2 \<longrightarrow> calculateCarryAdjustment ev m team ppo w = Inr 0) \<and>
     (2 \<le> length team \<and> teammates \<noteq> [] \<longrightarrow>
        (\<bar>diff\<bar> < 0.4 \<longrightarrow> calculateCarryAdjustment ev m team (Some pp) w = Inr 0) \<and>
        (0.4 < diff \<and> \<not> w \<longrightarrow>
           calculateCarryAdjustment ev m team (Some pp) w = Inr (Math_round (min 18 (diff * 12)))) \<and>
        (0.4 < diff \<and> w \<longrightarrow>
           calculateCarryAdjustment ev m team (Some pp) w = Inr (Math_round (min 8 (diff * 4)))) \<and>
        (diff < - 0.4 \<and> w \<longrightarrow>
           calculateCarryAdjustment ev m team (Some pp) w = Inr (Math_round (max (- 12) (diff * 8)))) \<and>
        (diff < - 0.4 \<and> \<not> w \<longrightarrow>
           calculateCarryAdjustment ev m team (Some pp) w = Inr (Math_round (max (- 10) (diff * 6)))) \<and>
        (\<bar>diff\<bar> = 0.4 \<longrightarrow> calculateCarryAdjustment ev m team (Some pp) w = Inr 0)) \<and>
     (\<forall>x. Math_round x \<in> \<int> \<and> x - 1 / 2 < Math_round x \<and> Math_round x \<le> x + 1 / 2)"
proof -
  have small: "length team < 2 \<longrightarrow> calculateCarryAdjustment ev m team ppo w = Inr 0"
    by (simp add: calculateCarryAdjustment_def)
  have big: "calculateCarryAdjustment ev m team (Some pp) w =
      (if \<bar>diff\<bar> < 0.4 then Inr 0
       else Inr (Math_round
         (if diff > 0.4 then (if \<not> w then min 18 (diff * 12) else min 8 (diff * 4))
          else if diff < - 0.4 then (if w then max (- 12) (diff * 8) else max (- 10) (diff * 6))
          else 0)))"
    if "2 \<le> length team" "teammates \<noteq> []"
  proof -
    from that(2) assms(2) have "tps \<noteq> []"
      using mapE_length by fastforce
    with that(1) assms show ?thesis
      by (simp add: calculateCarryAdjustment_def Let_def)
  qed
  show ?thesis
    using small big Math_round_nearest by (auto simp: Math_round_zero)
qed

theorem calculateCarryAdjustment_quadrants_witness:
  "calculateCarryAdjustment scoreOfStats (participation ''b1'' 2)
     [participation ''b1'' 2, participation ''b2'' 1, participation ''b3'' 1]
     (Some \<lparr>score = 2, adjustment = 0\<rparr>) False = Inr 12 \<and>
   calculateCarryAdjustment scoreOfStats (participation ''b1'' 2)
     [participation ''b1'' 2, participation ''b2'' 1, participation ''b3'' 1]
     (Some \<lparr>score = 2, adjustment = 0\<rparr>) True = Inr 4 \<and>
   calculateCarryAdjustment scoreOfStats (participation ''b1'' 2)
     [participation ''b1'' 2, participation ''b2'' 1, participation ''b3'' 1]
     (Some \<lparr>score = 0, adjustment = 0\<rparr>) True = Inr (- 8) \<and>
   calculateCarryAdjustment scoreOfStats (participation ''b1'' 2)
     [participation ''b1'' 2, participation ''b2'' 1, participation ''b3'' 1]
     (Some \<lparr>score = 0, adjustment = 0\<rparr>) False = Inr (- 6) \<and>
   calculateCarryAdjustment scoreOfStats (participation ''b1'' 2)
     [participation ''b1'' 2, participation ''b2'' 1, participation ''b3'' 1]
     (Some \<lparr>score = 6 / 5, adjustment = 0\<rparr>) True = Inr 0 \<and>
   calculateCarryAdjustment scoreOfStats (participation ''b1'' 2)
     [participation ''b1'' 2, participation ''b2'' 1, participation ''b3'' 1]
     (Some \<lparr>score = 7 / 5, adjustment = 0\<rparr>) True = Inr 0 \<and>
   calculateCarryAdjustment scoreOfStats (participation ''b1'' 2)
     [participation ''b1'' 2] None True = Inr 0"
proof -
  let ?team = "[participation ''b1'' 2, participation ''b2'' 1, participation ''b3'' 1]"
  let ?mates = "[participation ''b2'' 1, participation ''b3'' 1]"
  let ?tps = "[\<lparr>score = 1, adjustment = 0\<rparr>, \<lparr>score = 1, adjustment = 0\<rparr>]"
  have a: "?mates = filter (\<lambda>t. steamID (player t) \<noteq> steamID (player (participation ''b1'' 2))) ?team"
    by (simp add: participation_def)
  have b: "mapE (\<lambda>t. scoreOfStats t (?team @ ?mates)) ?mates = Inr ?tps"
    by (simp add: scoreOfStats_def participation_def)
  have c: "x - 1 = score \<lparr>score = x, adjustment = 0\<rparr> -
             sum_list (map score ?tps) / real (length ?tps)" for x :: real
    by simp
  note q = calculateCarryAdjustment_quadrants
    [where ev = scoreOfStats and m = "participation ''b1'' 2" and team = ?team
       and teammates = ?mates and tps = ?tps and ppo = None, OF a b]
  have a1: "[] = filter (\<lambda>t. steamID (player t) \<noteq> steamID (player (participation ''b1'' 2)))
                   [participation ''b1'' 2]"
    by simp
  have b1: "mapE (\<lambda>t. scoreOfStats t ([participation ''b1'' 2] @ [])) [] = Inr []"
    by simp
  from q [where pp = "\<lparr>score = 2, adjustment = 0\<rparr>" and diff = "2 - 1" and w = False, OF c]
  have 1: "calculateCarryAdjustment scoreOfStats (participation ''b1'' 2) ?team
     (Some \<lparr>score = 2, adjustment = 0\<rparr>) False = Inr 12"
    by (simp add: Math_round_def)
  from q [where pp = "\<lparr>score = 2, adjustment = 0\<rparr>" and diff = "2 - 1" and w = True, OF c]
  have 2: "calculateCarryAdjustment scoreOfStats (participation ''b1'' 2) ?team
     (Some \<lparr>score = 2, adjustment = 0\<rparr>) True = Inr 4"
    by (simp add: Math_round_def)
  from q [where pp = "\<lparr>score = 0, adjustment = 0\<rparr>" and diff = "0 - 1" and w = True, OF c]
  have 3: "calculateCarryAdjustment scoreOfStats (participation ''b1'' 2) ?team
     (Some \<lparr>score = 0, adjustment = 0\<rparr>) True = Inr (- 8)"
    by (simp add: Math_round_def)
  from q [where pp = "\<lparr>score = 0, adjustment = 0\<rparr>" and diff = "0 - 1" and w = False, OF c]
  have 4: "calculateCarryAdjustment scoreOfStats (participation ''b1'' 2) ?team
     (Some \<lparr>score = 0, adjustment = 0\<rparr>) False = Inr (- 6)"
    by (simp add: Math_round_def)
  from q [where pp = "\<lparr>score = 6 / 5, adjustment = 0\<rparr>" and diff = "6 / 5 - 1" and w = True, OF c]
  have 5: "calculateCarryAdjustment scoreOfStats (participation ''b1'' 2) ?team
     (Some \<lparr>score = 6 / 5, adjustment = 0\<rparr>) True = Inr 0"
    by simp
  from q [where pp = "\<lparr>score = 7 / 5, adjustment = 0\<rparr>" and diff = "7 / 5 - 1" and w = True, OF c]
  have 6: "calculateCarryAdjustment scoreOfStats (participation ''b1'' 2) ?team
     (Some \<lparr>score = 7 / 5, adjustment = 0\<rparr>) True = Inr 0"
    by simp
  from calculateCarryAdjustment_quadrants
    [where ev = scoreOfStats and m = "participation ''b1'' 2" and team = "[participation ''b1'' 2]"
       and teammates = "[]" and tps = "[]" and ppo = None and w = True
       and pp = "\<lparr>score = 2, adjustment = 0\<rparr>", OF a1 b1 refl]
  have 7: "calculateCarryAdjustment scoreOfStats (participation ''b1'' 2)
     [participation ''b1'' 2] None True = Inr 0"
    by simp
  from 1 2 3 4 5 6 7 show ?thesis
    by blast
qed

text \<open>The definitions a concrete match is evaluated with.\<close>

lemmas eval_defs =
  processMatch_def match0_def store0_def prev0_def participation_def
  scoreOfStats_def needsPopulation_def winnerUp_def shortOracle_def mkRating_def
  getOrCreatePlayerRating_def calculateTeamSkill_def cacheRatings_def newRatingAt_def
  elemAt_def convertPlayer_def Let_def js_absdiff_def previousMMR_of_def isWinner_of_def
  convertRatingChangeToMMR_def calculateBalanceFactor_def calculateCarryAdjustment_def
  clampMMRDelta_def Math_round_def upt_rec

section \<open>The second loop\<close>

lemma convertPlayer_first:
  assumes "previousMatchDetails V (steamID (player (team ! idx))) = Null"
  shows "convertPlayer E V t team perfs idx =
     (case calculateInitialMMR E (newRatingAt (newRatings V) t idx)
             (perfs (steamID (player (team ! idx)))) of
        Inl e \<Rightarrow> Inl e
      | Inr v \<Rightarrow> Inr ((team ! idx)\<lparr>mmrAfterMatch := Some v, mmrDelta := Some v\<rparr>, perfs))"
  using assms by (simp add: convertPlayer_def Let_def)

lemma convertPlayer_established:
  assumes "previousMatchDetails V (steamID (player (team ! idx))) \<noteq> Null"
    and "convertPlayer E V t team perfs idx = Inr (m, perfs')"
  shows "\<exists>base pa ca pp.
     convertRatingChangeToMMR
       (if t = 0 then elemAt (blueRatings V) idx else elemAt (redRatings V) idx)
       (newRatingAt (newRatings V) t idx) = Inr base \<and>
     calculatePerformanceAdjustment E (perfs (steamID (player (team ! idx))))
       (isWinner_of (winner V) t) (length team) = Inr pa \<and>
     calculateCarryAdjustment (calculateIndividualPerformance E) (team ! idx) team
       (perfs (steamID (player (team ! idx)))) (isWinner_of (winner V) t) = Inr ca \<and>
     perfs (steamID (player (team ! idx))) = Some pp \<and>
     perfs' = perfs(steamID (player (team ! idx)) \<mapsto> pp\<lparr>adjustment := pa + ca\<rparr>) \<and>
     m = (team ! idx)
       \<lparr>mmrAfterMatch :=
          Some (max 0 (previousMMR_of (previousMatchDetails V (steamID (player (team ! idx)))) +
             clampMMRDelta (Math_round ((base + pa + ca) *
               calculateBalanceFactor (skillDifference V) (isWinner_of (winner V) t)
                 (if t = 0 then blueAvgSkill V else redAvgSkill V)
                 (if t = 0 then redAvgSkill V else blueAvgSkill V)))
               (isWinner_of (winner V) t))),
        mmrDelta :=
          Some (clampMMRDelta (Math_round ((base + pa + ca) *
               calculateBalanceFactor (skillDifference V) (isWinner_of (winner V) t)
                 (if t = 0 then blueAvgSkill V else redAvgSkill V)
                 (if t = 0 then redAvgSkill V else blueAvgSkill V)))
               (isWinner_of (winner V) t))\<rparr>"
  using assms
  by (auto simp: convertPlayer_def Let_def split: sum.splits option.splits)

text \<open>
  One call of the callback writes the record as \<open>recordWritten\<close> says, and leaves
  the performance of every first-match player as it was.
\<close>

lemma convertPlayer_step:
  assumes "convertPlayer E V t team perfs idx = Inr (m, perfs')"
    and "\<forall>k. previousMatchDetails V k = Null \<longrightarrow> perfs k = perfs0 k"
  shows "recordWritten E V t perfs0 idx (team ! idx) m \<and>
         (\<forall>k. previousMatchDetails V k = Null \<longrightarrow> perfs' k = perfs0 k)"
proof (cases "previousMatchDetails V (steamID (player (team ! idx))) = Null")
  case True
  with assms show ?thesis
    by (auto simp: convertPlayer_first recordWritten_def split: sum.splits)
next
  case False
  from convertPlayer_established [OF False assms(1)] False assms(2) show ?thesis
    by (auto simp: recordWritten_def)
qed

lemma recordWritten_orig:
  "player orig' = player orig \<Longrightarrow> stats orig' = stats orig \<Longrightarrow>
   recordWritten E V t perfs0 idx orig' m = recordWritten E V t perfs0 idx orig m"
  by (simp add: recordWritten_def)

lemma convertTeam_written:
  assumes "convertTeam E V t idxs team perfs = Inr (team', perfs')"
    and "\<forall>k. previousMatchDetails V k = Null \<longrightarrow> perfs k = perfs0 k"
    and "length team = length team0"
    and "\<forall>j < length team0. player (team ! j) = player (team0 ! j) \<and> stats (team ! j) = stats (team0 ! j)"
    and "\<forall>j \<in> S. j < length team0 \<longrightarrow> recordWritten E V t perfs0 j (team0 ! j) (team ! j)"
    and "\<forall>j \<in> set idxs. j < length team0"
  shows "(\<forall>k. previousMatchDetails V k = Null \<longrightarrow> perfs' k = perfs0 k) \<and>
         length team' = length team0 \<and>
         (\<forall>j \<in> S \<union> set idxs. j < length team0 \<longrightarrow>
            recordWritten E V t perfs0 j (team0 ! j) (team' ! j))"
  using assms
proof (induction idxs arbitrary: team perfs S)
  case Nil
  then show ?case by simp
next
  case (Cons idx idxs)
  from Cons.prems(1) obtain m perfs1 where
    step: "convertPlayer E V t team perfs idx = Inr (m, perfs1)" and
    rest: "convertTeam E V t idxs (team[idx := m]) perfs1 = Inr (team', perfs')"
    by (auto split: sum.splits)
  have idx: "idx < length team0"
    using Cons.prems(6) by simp
  from convertPlayer_step [OF step Cons.prems(2)] have
    w: "recordWritten E V t perfs0 idx (team ! idx) m" and
    p1: "\<forall>k. previousMatchDetails V k = Null \<longrightarrow> perfs1 k = perfs0 k"
    by simp_all
  have w0: "recordWritten E V t perfs0 idx (team0 ! idx) m"
    using w Cons.prems(4) idx recordWritten_orig [of "team ! idx" "team0 ! idx"] by simp
  have pm: "player m = player (team0 ! idx) \<and> stats m = stats (team0 ! idx)"
    using w0 by (simp add: recordWritten_def)
  have len: "length (team[idx := m]) = length team0"
    using Cons.prems(3) by simp
  have same: "\<forall>j < length team0. player (team[idx := m] ! j) = player (team0 ! j) \<and>
                stats (team[idx := m] ! j) = stats (team0 ! j)"
    using Cons.prems(3,4) pm idx by (auto simp: nth_list_update)
  have S': "\<forall>j \<in> insert idx S. j < length team0 \<longrightarrow>
              recordWritten E V t perfs0 j (team0 ! j) (team[idx := m] ! j)"
    using Cons.prems(3,5) w0 idx by (auto simp: nth_list_update)
  have "\<forall>j \<in> set idxs. j < length team0"
    using Cons.prems(6) by simp
  from Cons.IH [OF rest p1 len same S' this] show ?case
    by simp
qed

section \<open>The base change\<close>

text \<open>
  C7. The base change of an established player is
  \<open>(newRating.mu - oldRating.mu) * 5 + max 0 (oldRating.sigma - newRating.sigma) * 1.5\<close>;
  the sigma term is never negative, and a sigma that did not decrease contributes
  nothing. It is this value that the callback of the second loop adds to the
  performance and carry adjustments, scales, rounds and clamps into the delta of
  an established player.
\<close>

theorem convertRatingChangeToMMR_formula:
  "convertRatingChangeToMMR (Some ol) (Some n) =
     Inr ((mu n - mu ol) * 5 + max 0 (sigma ol - sigma n) * 1.5) \<and>
   0 \<le> max 0 (sigma ol - sigma n) * (1.5::real) \<and>
   (sigma ol \<le> sigma n \<longrightarrow> convertRatingChangeToMMR (Some ol) (Some n) = Inr ((mu n - mu ol) * 5)) \<and>
   (\<forall>E V t team ps idx m ps'.
      previousMatchDetails V (steamID (player (team ! idx))) \<noteq> Null \<and>
      convertPlayer E V t team ps idx = Inr (m, ps') \<longrightarrow>
      (\<exists>old new pa ca.
         (if t = 0 then elemAt (blueRatings V) idx else elemAt (redRatings V) idx) = Some old \<and>
         newRatingAt (newRatings V) t idx = Some new \<and>
         mmrDelta m =
           Some (clampMMRDelta
             (Math_round
                (((mu new - mu old) * 5 + max 0 (sigma old - sigma new) * 1.5 + pa + ca) *
                 calculateBalanceFactor (skillDifference V) (isWinner_of (winner V) t)
                   (if t = 0 then blueAvgSkill V else redAvgSkill V)
                   (if t = 0 then redAvgSkill V else blueAvgSkill V)))
             (isWinner_of (winner V) t))))"
proof (intro conjI allI impI)
  show "convertRatingChangeToMMR (Some ol) (Some n) =
     Inr ((mu n - mu ol) * 5 + max 0 (sigma ol - sigma n) * 1.5)"
    by (simp add: convertRatingChangeToMMR_def Let_def)
next
  show "0 \<le> max 0 (sigma ol - sigma n) * (1.5::real)"
    by simp
next
  assume "sigma ol \<le> sigma n"
  then show "convertRatingChangeToMMR (Some ol) (Some n) = Inr ((mu n - mu ol) * 5)"
    by (simp add: convertRatingChangeToMMR_def Let_def max_def)
next
  fix E :: "'a env" and V :: "'a scope" and t and team :: "'a MatchDetail list"
    and ps idx m ps'
  assume a: "previousMatchDetails V (steamID (player (team ! idx))) \<noteq> Null \<and>
      convertPlayer E V t team ps idx = Inr (m, ps')"
  let ?old = "if t = 0 then elemAt (blueRatings V) idx else elemAt (redRatings V) idx"
  let ?new = "newRatingAt (newRatings V) t idx"
  let ?bf = "calculateBalanceFactor (skillDifference V) (isWinner_of (winner V) t)
                   (if t = 0 then blueAvgSkill V else redAvgSkill V)
                   (if t = 0 then redAvgSkill V else blueAvgSkill V)"
  from a convertPlayer_established [of V team idx E t ps m ps']
  obtain base pa ca where
    base: "convertRatingChangeToMMR ?old ?new = Inr base" and
    m: "mmrDelta m =
          Some (clampMMRDelta (Math_round ((base + pa + ca) * ?bf)) (isWinner_of (winner V) t))"
    by auto
  from base obtain old new where
    on: "?old = Some old" "?new = Some new" and
    b: "base = (mu new - mu old) * 5 + max 0 (sigma old - sigma new) * 1.5"
    by (auto simp: convertRatingChangeToMMR_def Let_def split: option.splits)
  from on b m
  show "\<exists>old new pa ca. ?old = Some old \<and> ?new = Some new \<and>
         mmrDelta m =
           Some (clampMMRDelta
             (Math_round
                (((mu new - mu old) * 5 + max 0 (sigma old - sigma new) * 1.5 + pa + ca) * ?bf))
             (isWinner_of (winner V) t))"
    by blast
qed

lemma convertPlayer_b1:
  "convertPlayer env0 scope0 0 [participation ''b1'' 2, participation ''b2'' 1] performances0 0 =
     Inr ((participation ''b1'' 2)\<lparr>mmrAfterMatch := Some 1011, mmrDelta := Some 11\<rparr>,
          performances0(''b1'' \<mapsto> \<lparr>score = 2, adjustment = 4\<rparr>))"
  by (simp add: eval_defs env0_def scope0_def performances0_def)

theorem convertRatingChangeToMMR_formula_witness:
  "convertRatingChangeToMMR (Some \<lparr>mu = 25, sigma = 5\<rparr>) (Some \<lparr>mu = 26, sigma = 6\<rparr>) = Inr 5 \<and>
   (\<exists>old new pa ca.
      elemAt (blueRatings scope0) 0 = Some old \<and> newRatingAt (newRatings scope0) 0 0 = Some new \<and>
      Some (11::real) =
        Some (clampMMRDelta
          (Math_round
             (((mu new - mu old) * 5 + max 0 (sigma old - sigma new) * 1.5 + pa + ca) *
              calculateBalanceFactor (skillDifference scope0) (isWinner_of (winner scope0) 0)
                (blueAvgSkill scope0) (redAvgSkill scope0)))
          (isWinner_of (winner scope0) 0)))"
proof -
  note t = convertRatingChangeToMMR_formula
    [where ?'a = real and ol = "\<lparr>mu = 25, sigma = 5\<rparr>" and n = "\<lparr>mu = 26, sigma = 6\<rparr>"]
  from t have first: "convertRatingChangeToMMR (Some \<lparr>mu = 25, sigma = 5\<rparr>) (Some \<lparr>mu = 26, sigma = 6\<rparr>) = Inr 5"
    by simp
  have est: "previousMatchDetails scope0
      (steamID (player ([participation ''b1'' 2, participation ''b2'' 1] ! 0))) \<noteq> Null"
    by (simp add: scope0_def prev0_def participation_def)
  from t [THEN conjunct2, THEN conjunct2, THEN conjunct2, rule_format,
      where V = scope0 and E = env0 and t = 0 and idx = 0 and ps = performances0
        and team = "[participation ''b1'' 2, participation ''b2'' 1]", OF conjI, OF est convertPlayer_b1]
  have "\<exists>old new pa ca.
      elemAt (blueRatings scope0) 0 = Some old \<and> newRatingAt (newRatings scope0) 0 0 = Some new \<and>
      Some (11::real) =
        Some (clampMMRDelta
          (Math_round
             (((mu new - mu old) * 5 + max 0 (sigma old - sigma new) * 1.5 + pa + ca) *
              calculateBalanceFactor (skillDifference scope0) (isWinner_of (winner scope0) 0)
                (blueAvgSkill scope0) (redAvgSkill scope0)))
          (isWinner_of (winner scope0) 0))"
    by simp
  with first show ?thesis
    by blast
qed

section \<open>The population of the carry adjustment\<close>

lemma mapE_Inr_map:
  "(\<And>x. x \<in> set xs \<Longrightarrow> f x = Inr (g x)) \<Longrightarrow> mapE f xs = Inr (map g xs)"
  by (induction xs) simp_all


text \<open>
  C10. In the carry adjustment of a team of two records or more, every teammate
  (a record of the team under another id than the player's) is scored by the
  evaluator against the team followed by the teammates:
  \<^item> an error of the evaluator for a teammate on that population is an error of
    the carry adjustment;
  \<^item> when the evaluator returns a performance for every teammate on that
    population, the average the player is compared with is the average of
    exactly these scores, whatever the evaluator returns on another population;
  \<^item> so two evaluators that agree on these calls give the same adjustment;
  \<^item> in that population a record of a teammate occurs twice as often as in the
    team, a record of the player as often as in the team;
  \<^item> the callback of the second loop hands \<open>calculateCarryAdjustment\<close> the
    evaluator of the main computation (\<open>calculateIndividualPerformance\<close>): when
    it returns for an established player, that evaluator has returned a
    performance for every teammate on the population above.
\<close>

theorem calculateCarryAdjustment_population:
  assumes "teammates = filter (\<lambda>t. steamID (player t) \<noteq> steamID (player m)) team"
    and "2 \<le> length team"
  shows
    "((\<exists>t \<in> set teammates. \<exists>e. ev t (team @ teammates) = Inl e) \<longrightarrow>
        (\<exists>e. calculateCarryAdjustment ev m team pp w = Inl e)) \<and>
     ((\<forall>t \<in> set teammates. ev t (team @ teammates) = Inr (perf t)) \<and> teammates \<noteq> [] \<longrightarrow>
        calculateCarryAdjustment ev m team (Some p) w =
          (let diff = score p - sum_list (map (\<lambda>t. score (perf t)) teammates) / real (length teammates)
           in if \<bar>diff\<bar> < 0.4 then Inr 0
              else Inr (Math_round
                (if diff > 0.4 then (if \<not> w then min 18 (diff * 12) else min 8 (diff * 4))
                 else if diff < - 0.4 then (if w then max (- 12) (diff * 8) else max (- 10) (diff * 6))
                 else 0)))) \<and>
     ((\<forall>t \<in> set teammates. ev t (team @ teammates) = ev' t (team @ teammates)) \<longrightarrow>
        calculateCarryAdjustment ev m team pp w = calculateCarryAdjustment ev' m team pp w) \<and>
     count_list (team @ teammates) x =
       (if steamID (player x) = steamID (player m) then count_list team x
        else 2 * count_list team x) \<and>
     (\<forall>E V t ps idx r ps'.
        m = team ! idx \<and>
        previousMatchDetails V (steamID (player (team ! idx))) \<noteq> Null \<and>
        convertPlayer E V t team ps idx = Inr (r, ps') \<longrightarrow>
        (\<forall>x \<in> set teammates. \<exists>pf. calculateIndividualPerformance E x (team @ teammates) = Inr pf))"
proof -
  let ?pop = "team @ teammates"
  have unfold: "calculateCarryAdjustment ev m team pp b =
      (case mapE (\<lambda>t. ev t ?pop) teammates of
         Inl e \<Rightarrow> Inl e
       | Inr tps \<Rightarrow>
           (case pp of
              None \<Rightarrow> Inl TypeError
            | Some q \<Rightarrow>
                if tps = [] then Inr (Math_round 0)
                else
                  (let diff = score q - sum_list (map score tps) / real (length tps)
                   in if \<bar>diff\<bar> < 0.4 then Inr 0
                      else Inr (Math_round
                        (if diff > 0.4 then (if \<not> b then min 18 (diff * 12) else min 8 (diff * 4))
                         else if diff < - 0.4 then
                           (if b then max (- 12) (diff * 8) else max (- 10) (diff * 6))
                         else 0)))))"
    for ev :: "'a MatchDetail \<Rightarrow> 'a MatchDetail list \<Rightarrow> error + PlayerPerformance" and pp b
    using assms unfolding calculateCarryAdjustment_def Let_def by simp
  have err: "\<exists>e. calculateCarryAdjustment ev m team pp b = Inl e"
    if "\<exists>t \<in> set teammates. \<exists>e. ev t ?pop = Inl e"
    for ev :: "'a MatchDetail \<Rightarrow> 'a MatchDetail list \<Rightarrow> error + PlayerPerformance" and pp b
  proof -
    from that have "\<exists>e. mapE (\<lambda>t. ev t ?pop) teammates = Inl e"
      by (simp add: mapE_Inl_iff)
    then show ?thesis
      by (auto simp: unfold)
  qed
  have avg: "calculateCarryAdjustment ev m team (Some p) w =
          (let diff = score p - sum_list (map (\<lambda>t. score (perf t)) teammates) / real (length teammates)
           in if \<bar>diff\<bar> < 0.4 then Inr 0
              else Inr (Math_round
                (if diff > 0.4 then (if \<not> w then min 18 (diff * 12) else min 8 (diff * 4))
                 else if diff < - 0.4 then (if w then max (- 12) (diff * 8) else max (- 10) (diff * 6))
                 else 0)))"
    if "\<forall>t \<in> set teammates. ev t ?pop = Inr (perf t)" "teammates \<noteq> []"
  proof -
    from that(1) have "mapE (\<lambda>t. ev t ?pop) teammates = Inr (map perf teammates)"
      by (intro mapE_Inr_map) simp
    with that(2) show ?thesis
      unfolding unfold Let_def by (simp add: comp_def)
  qed
  have same: "calculateCarryAdjustment ev m team pp w = calculateCarryAdjustment ev' m team pp w"
    if "\<forall>t \<in> set teammates. ev t ?pop = ev' t ?pop"
  proof -
    from that have "mapE (\<lambda>t. ev t ?pop) teammates = mapE (\<lambda>t. ev' t ?pop) teammates"
      by (intro mapE_cong) simp
    then show ?thesis
      by (simp add: unfold)
  qed
  have c: "count_list (filter P xs) x = (if P x then count_list xs x else 0)"
    for P and xs :: "'a MatchDetail list"
    by (induction xs) auto
  have cnt: "count_list ?pop x =
       (if steamID (player x) = steamID (player m) then count_list team x
        else 2 * count_list team x)"
    using assms(1) by (simp add: c)
  have loop: "\<forall>x \<in> set teammates. \<exists>pf. calculateIndividualPerformance E x ?pop = Inr pf"
    if a: "m = team ! idx \<and>
        previousMatchDetails V (steamID (player (team ! idx))) \<noteq> Null \<and>
        convertPlayer E V t team ps idx = Inr (r, ps')"
    for E :: "'a env" and V :: "'a scope" and t ps idx r ps'
  proof (rule ccontr)
    assume "\<not> (\<forall>x \<in> set teammates. \<exists>pf. calculateIndividualPerformance E x ?pop = Inr pf)"
    then obtain x where "x \<in> set teammates" "\<forall>pf. calculateIndividualPerformance E x ?pop \<noteq> Inr pf"
      by blast
    then have "\<exists>t \<in> set teammates. \<exists>e. calculateIndividualPerformance E t ?pop = Inl e"
      by (cases "calculateIndividualPerformance E x ?pop") auto
    from err [of "calculateIndividualPerformance E" "ps (steamID (player (team ! idx)))"
        "isWinner_of (winner V) t", OF this] have
      "\<exists>e. calculateCarryAdjustment (calculateIndividualPerformance E) (team ! idx) team
              (ps (steamID (player (team ! idx)))) (isWinner_of (winner V) t) = Inl e"
      using a by simp
    moreover from a convertPlayer_established [of V team idx E t ps r ps'] have
      "\<exists>ca. calculateCarryAdjustment (calculateIndividualPerformance E) (team ! idx) team
              (ps (steamID (player (team ! idx)))) (isWinner_of (winner V) t) = Inr ca"
      by auto
    ultimately show False
      by auto
  qed
  from err avg same cnt loop show ?thesis
    by blast
qed

theorem calculateCarryAdjustment_population_witness:
  "calculateCarryAdjustment scoreOfSize (participation ''b1'' 2)
     [participation ''b1'' 2, participation ''b2'' 1, participation ''b3'' 1]
     (Some \<lparr>score = 6, adjustment = 0\<rparr>) True = Inr 4 \<and>
   (\<exists>e. calculateCarryAdjustment raisesAtFive (participation ''b1'' 2)
     [participation ''b1'' 2, participation ''b2'' 1, participation ''b3'' 1]
     (Some \<lparr>score = 6, adjustment = 0\<rparr>) True = Inl e) \<and>
   calculateCarryAdjustment scoreOfSize (participation ''b1'' 2)
     [participation ''b1'' 2, participation ''b2'' 1, participation ''b3'' 1]
     (Some \<lparr>score = 6, adjustment = 0\<rparr>) True =
   calculateCarryAdjustment (\<lambda>m population. Inr \<lparr>score = 5, adjustment = 0\<rparr>) (participation ''b1'' 2)
     [participation ''b1'' 2, participation ''b2'' 1, participation ''b3'' 1]
     (Some \<lparr>score = 6, adjustment = 0\<rparr>) True \<and>
   count_list
     ([participation ''b1'' 2, participation ''b2'' 1, participation ''b3'' 1] @
      [participation ''b2'' 1, participation ''b3'' 1]) (participation ''b2'' 1) = 2 \<and>
   (\<exists>pf. calculateIndividualPerformance env0 (participation ''b2'' 1)
      ([participation ''b1'' 2, participation ''b2'' 1] @ [participation ''b2'' 1]) = Inr pf)"
proof -
  let ?b1 = "participation ''b1'' 2"
  let ?team = "[participation ''b1'' 2, participation ''b2'' 1, participation ''b3'' 1]"
  let ?mates = "[participation ''b2'' 1, participation ''b3'' 1]"
  let ?p = "\<lparr>score = 6, adjustment = 0\<rparr>"
  let ?five = "\<lambda>(m::real MatchDetail) (population::real MatchDetail list).
                 (Inr \<lparr>score = 5, adjustment = 0\<rparr> :: error + PlayerPerformance)"
  have a: "?mates = filter (\<lambda>t. steamID (player t) \<noteq> steamID (player ?b1)) ?team"
    by (simp add: participation_def)
  have l: "2 \<le> length ?team"
    by simp
  have size: "\<forall>t \<in> set ?mates. scoreOfSize t (?team @ ?mates) = Inr \<lparr>score = 5, adjustment = 0\<rparr>"
    by (simp add: scoreOfSize_def)
  have fails: "\<exists>t \<in> set ?mates. \<exists>e. raisesAtFive t (?team @ ?mates) = Inl e"
    by (auto simp: raisesAtFive_def)
  note s = calculateCarryAdjustment_population
    [where ev = scoreOfSize and ev' = ?five and perf = "\<lambda>t. \<lparr>score = 5, adjustment = 0\<rparr>"
       and p = ?p and pp = "Some ?p" and w = True and x = "participation ''b2'' 1", OF a l]
  have ne: "?mates \<noteq> []"
    by simp
  from s [THEN conjunct2, THEN conjunct1, THEN mp, OF conjI, OF size ne]
  have 1: "calculateCarryAdjustment scoreOfSize ?b1 ?team (Some ?p) True = Inr 4"
    by (simp add: Math_round_def)
  from calculateCarryAdjustment_population
    [where ev = raisesAtFive and pp = "Some ?p" and w = True, OF a l, THEN conjunct1, THEN mp, OF fails]
  have 2: "\<exists>e. calculateCarryAdjustment raisesAtFive ?b1 ?team (Some ?p) True = Inl e" .
  from s [THEN conjunct2, THEN conjunct2, THEN conjunct1, THEN mp, OF size]
  have 3: "calculateCarryAdjustment scoreOfSize ?b1 ?team (Some ?p) True =
      calculateCarryAdjustment ?five ?b1 ?team (Some ?p) True" .
  from s [THEN conjunct2, THEN conjunct2, THEN conjunct2, THEN conjunct1]
  have 4: "count_list (?team @ ?mates) (participation ''b2'' 1) = 2"
    by (simp add: participation_def)
  let ?duo = "[participation ''b1'' 2, participation ''b2'' 1]"
  have a2: "[participation ''b2'' 1] = filter (\<lambda>t. steamID (player t) \<noteq> steamID (player ?b1)) ?duo"
    by (simp add: participation_def)
  have l2: "2 \<le> length ?duo"
    by simp
  have est: "?b1 = ?duo ! 0 \<and> previousMatchDetails scope0 (steamID (player (?duo ! 0))) \<noteq> Null \<and>
      convertPlayer env0 scope0 0 ?duo performances0 0 =
        Inr (?b1\<lparr>mmrAfterMatch := Some 1011, mmrDelta := Some 11\<rparr>,
             performances0(''b1'' \<mapsto> \<lparr>score = 2, adjustment = 4\<rparr>))"
    using convertPlayer_b1 by (simp add: scope0_def prev0_def participation_def)
  from calculateCarryAdjustment_population
    [where ev = scoreOfStats and pp = None and w = True, OF a2 l2,
     THEN conjunct2, THEN conjunct2, THEN conjunct2, THEN conjunct2, rule_format,
     where E = env0 and V = scope0 and t = 0 and idx = 0 and ps = performances0
       and x = "participation ''b2'' 1", OF est]
  have 5: "\<exists>pf. calculateIndividualPerformance env0 (participation ''b2'' 1)
      (?duo @ [participation ''b2'' 1]) = Inr pf"
    by simp
  from 1 2 3 4 5 show ?thesis
    by blast
qed

section \<open>No comparison population in the carry adjustment\<close>





text \<open>
  With that evaluator the two-against-two match is processed to the end, with the
  same records as under the evaluator that never raises.
\<close>

lemma processMatch_needsPopulation: "processMatch envP store0 match0 prev0 = Inr out0"
  by (simp add: eval_defs envP_def env0_def out0_def fun_upd_twist)

section \<open>processMatch as a whole\<close>

lemma processMatch_Inr:
  assumes "processMatch E store md prev = Inr out"
  obtains blue red blueR s1 redR s2 w perfs perfs1 perfs2 where
    "organizeTeams E md = Inr (blue, red)"
    "teamRatings E store blue = Inr (blueR, s1)"
    "teamRatings E s1 red = Inr (redR, s2)"
    "determineWinner E blue red = Inr w"
    "scoreAll (calculateIndividualPerformance E) md md Map.empty = Inr perfs"
    "convertTeam E
       \<lparr>previousMatchDetails = prev, winner = w, blueRatings = blueR, redRatings = redR,
        newRatings = (if w = ''blue'' then rate E [blueR, redR] [1, 2] else rate E [blueR, redR] [2, 1]),
        blueAvgSkill = calculateTeamSkill blueR, redAvgSkill = calculateTeamSkill redR,
        skillDifference = js_absdiff (calculateTeamSkill blueR) (calculateTeamSkill redR)\<rparr>
       0 [0..<length blue] blue perfs = Inr (blueOut out, perfs1)"
    "convertTeam E
       \<lparr>previousMatchDetails = prev, winner = w, blueRatings = blueR, redRatings = redR,
        newRatings = (if w = ''blue'' then rate E [blueR, redR] [1, 2] else rate E [blueR, redR] [2, 1]),
        blueAvgSkill = calculateTeamSkill blueR, redAvgSkill = calculateTeamSkill redR,
        skillDifference = js_absdiff (calculateTeamSkill blueR) (calculateTeamSkill redR)\<rparr>
       1 [0..<length red] red perfs1 = Inr (redOut out, perfs2)"
    "ratingsOut out =
       cacheRatings (if w = ''blue'' then rate E [blueR, redR] [1, 2] else rate E [blueR, redR] [2, 1])
         blue red s2"
  using assms unfolding processMatch_def Let_def
  by (auto split: sum.splits prod.splits)

text \<open>
  A call that returns has written every record of both rosters, each as
  \<open>recordWritten\<close> says for its position.
\<close>

lemma processMatch_written:
  assumes "processMatch E store md prev = Inr out"
  obtains blue red blueR s1 redR s2 w perfs V where
    "organizeTeams E md = Inr (blue, red)"
    "teamRatings E store blue = Inr (blueR, s1)"
    "teamRatings E s1 red = Inr (redR, s2)"
    "determineWinner E blue red = Inr w"
    "scoreAll (calculateIndividualPerformance E) md md Map.empty = Inr perfs"
    "V = \<lparr>previousMatchDetails = prev, winner = w, blueRatings = blueR, redRatings = redR,
        newRatings = (if w = ''blue'' then rate E [blueR, redR] [1, 2] else rate E [blueR, redR] [2, 1]),
        blueAvgSkill = calculateTeamSkill blueR, redAvgSkill = calculateTeamSkill redR,
        skillDifference = js_absdiff (calculateTeamSkill blueR) (calculateTeamSkill redR)\<rparr>"
    "length (blueOut out) = length blue"
    "length (redOut out) = length red"
    "\<forall>i < length blue. recordWritten E V 0 perfs i (blue ! i) (blueOut out ! i)"
    "\<forall>i < length red. recordWritten E V 1 perfs i (red ! i) (redOut out ! i)"
proof -
  from assms obtain blue red blueR s1 redR s2 w perfs perfs1 perfs2 V where
    org: "organizeTeams E md = Inr (blue, red)" and
    tb: "teamRatings E store blue = Inr (blueR, s1)" and
    tr: "teamRatings E s1 red = Inr (redR, s2)" and
    win: "determineWinner E blue red = Inr w" and
    sc: "scoreAll (calculateIndividualPerformance E) md md Map.empty = Inr perfs" and
    V: "V = \<lparr>previousMatchDetails = prev, winner = w, blueRatings = blueR, redRatings = redR,
        newRatings = (if w = ''blue'' then rate E [blueR, redR] [1, 2] else rate E [blueR, redR] [2, 1]),
        blueAvgSkill = calculateTeamSkill blueR, redAvgSkill = calculateTeamSkill redR,
        skillDifference = js_absdiff (calculateTeamSkill blueR) (calculateTeamSkill redR)\<rparr>" and
    cb: "convertTeam E V 0 [0..<length blue] blue perfs = Inr (blueOut out, perfs1)" and
    cr: "convertTeam E V 1 [0..<length red] red perfs1 = Inr (redOut out, perfs2)"
    by (elim processMatch_Inr) blast
  have b: "(\<forall>k. previousMatchDetails V k = Null \<longrightarrow> perfs1 k = perfs k) \<and>
           length (blueOut out) = length blue \<and>
           (\<forall>j \<in> {} \<union> set [0..<length blue]. j < length blue \<longrightarrow>
              recordWritten E V 0 perfs j (blue ! j) (blueOut out ! j))"
    by (rule convertTeam_written [OF cb]) simp_all
  have r: "(\<forall>k. previousMatchDetails V k = Null \<longrightarrow> perfs2 k = perfs k) \<and>
           length (redOut out) = length red \<and>
           (\<forall>j \<in> {} \<union> set [0..<length red]. j < length red \<longrightarrow>
              recordWritten E V 1 perfs j (red ! j) (redOut out ! j))"
    by (rule convertTeam_written [OF cr]) (use b in simp_all)
  show thesis
    by (rule that [OF org tb tr win sc V]) (use b r in simp_all)
qed


section \<open>The concrete matches, evaluated\<close>

lemma processMatch_match0: "processMatch env0 store0 match0 prev0 = Inr out0"
  by (simp add: eval_defs env0_def out0_def fun_upd_twist)

lemma organizeTeams_match0:
  "organizeTeams env0 match0 =
     Inr ([participation ''b1'' 2, participation ''b2'' 1],
          [participation ''r1'' 1, participation ''r2'' 1])"
  by (simp add: env0_def match0_def)

lemma determineWinner_match0:
  "determineWinner env0 [participation ''b1'' 2, participation ''b2'' 1]
     [participation ''r1'' 1, participation ''r2'' 1] = Inr ''blue''"
  by (simp add: env0_def)

section \<open>The bounds of the MMR delta\<close>

text \<open>
  C2. When \<open>processMatch\<close> returns, the record of every established player (one
  whose previous match detail is not \<open>null\<close>) holds a delta in [2, 40] if the
  player is on the winning team and in [-40, -2] if not; it is never 0. The
  clamp alone gives the same bounds for any number.
\<close>

theorem processMatch_delta_bounds:
  assumes "processMatch E store md prev = Inr out"
    and "organizeTeams E md = Inr (blue, red)"
    and "determineWinner E blue red = Inr w"
  shows
    "length (blueOut out) = length blue \<and> length (redOut out) = length red \<and>
     (\<forall>i < length blue. player (blueOut out ! i) = player (blue ! i) \<and>
        (prev (steamID (player (blue ! i))) \<noteq> Null \<longrightarrow>
           (\<exists>d. mmrDelta (blueOut out ! i) = Some d \<and> d \<noteq> 0 \<and>
                (w = ''blue'' \<longrightarrow> 2 \<le> d \<and> d \<le> 40) \<and>
                (w \<noteq> ''blue'' \<longrightarrow> - 40 \<le> d \<and> d \<le> - 2)))) \<and>
     (\<forall>i < length red. player (redOut out ! i) = player (red ! i) \<and>
        (prev (steamID (player (red ! i))) \<noteq> Null \<longrightarrow>
           (\<exists>d. mmrDelta (redOut out ! i) = Some d \<and> d \<noteq> 0 \<and>
                (w = ''red'' \<longrightarrow> 2 \<le> d \<and> d \<le> 40) \<and>
                (w \<noteq> ''red'' \<longrightarrow> - 40 \<le> d \<and> d \<le> - 2)))) \<and>
     (\<forall>x. 2 \<le> clampMMRDelta x True \<and> clampMMRDelta x True \<le> 40 \<and>
          - 40 \<le> clampMMRDelta x False \<and> clampMMRDelta x False \<le> - 2)"
proof -
  from assms(1) obtain blue' red' blueR s1 redR s2 w' perfs V where
    org: "organizeTeams E md = Inr (blue', red')" and
    win: "determineWinner E blue' red' = Inr w'" and
    V: "V = \<lparr>previousMatchDetails = prev, winner = w', blueRatings = blueR, redRatings = redR,
        newRatings = (if w' = ''blue'' then rate E [blueR, redR] [1, 2] else rate E [blueR, redR] [2, 1]),
        blueAvgSkill = calculateTeamSkill blueR, redAvgSkill = calculateTeamSkill redR,
        skillDifference = js_absdiff (calculateTeamSkill blueR) (calculateTeamSkill redR)\<rparr>" and
    lb: "length (blueOut out) = length blue'" and
    lr: "length (redOut out) = length red'" and
    wb: "\<forall>i < length blue'. recordWritten E V 0 perfs i (blue' ! i) (blueOut out ! i)" and
    wr: "\<forall>i < length red'. recordWritten E V 1 perfs i (red' ! i) (redOut out ! i)"
    by (elim processMatch_written) blast
  from org assms(2) have eq: "blue' = blue" "red' = red"
    by simp_all
  with win assms(3) have w: "w' = w"
    by simp
  have pv: "previousMatchDetails V = prev" and wV: "winner V = w"
    using V w by simp_all
  have blue_ok: "player (blueOut out ! i) = player (blue ! i) \<and>
        (prev (steamID (player (blue ! i))) \<noteq> Null \<longrightarrow>
           (\<exists>d. mmrDelta (blueOut out ! i) = Some d \<and> d \<noteq> 0 \<and>
                (w = ''blue'' \<longrightarrow> 2 \<le> d \<and> d \<le> 40) \<and>
                (w \<noteq> ''blue'' \<longrightarrow> - 40 \<le> d \<and> d \<le> - 2)))"
    if "i < length blue" for i
  proof -
    from wb that eq have rw: "recordWritten E V 0 perfs i (blue ! i) (blueOut out ! i)"
      by simp
    then have p: "player (blueOut out ! i) = player (blue ! i)"
      by (simp add: recordWritten_def)
    have "\<exists>d. mmrDelta (blueOut out ! i) = Some d \<and> d \<noteq> 0 \<and>
                (w = ''blue'' \<longrightarrow> 2 \<le> d \<and> d \<le> 40) \<and>
                (w \<noteq> ''blue'' \<longrightarrow> - 40 \<le> d \<and> d \<le> - 2)"
      if est: "prev (steamID (player (blue ! i))) \<noteq> Null"
    proof -
      from rw est pv wV obtain d x where
        d: "mmrDelta (blueOut out ! i) = Some d" and
        c: "d = clampMMRDelta (Math_round x) (isWinner_of w 0)"
        by (auto simp: recordWritten_def Let_def split: option.splits)
      have iw: "isWinner_of w 0 = (w = ''blue'')"
        by (simp add: isWinner_of_def)
      have "d \<noteq> 0 \<and> (w = ''blue'' \<longrightarrow> 2 \<le> d \<and> d \<le> 40) \<and>
            (w \<noteq> ''blue'' \<longrightarrow> - 40 \<le> d \<and> d \<le> - 2)"
      proof (cases "w = ''blue''")
        case True
        with c iw clampMMRDelta_bounds [of True "Math_round x"] show ?thesis
          by simp
      next
        case False
        with c iw clampMMRDelta_bounds [of False "Math_round x"] show ?thesis
          by simp
      qed
      with d show ?thesis by blast
    qed
    with p show ?thesis by blast
  qed
  have red_ok: "player (redOut out ! i) = player (red ! i) \<and>
        (prev (steamID (player (red ! i))) \<noteq> Null \<longrightarrow>
           (\<exists>d. mmrDelta (redOut out ! i) = Some d \<and> d \<noteq> 0 \<and>
                (w = ''red'' \<longrightarrow> 2 \<le> d \<and> d \<le> 40) \<and>
                (w \<noteq> ''red'' \<longrightarrow> - 40 \<le> d \<and> d \<le> - 2)))"
    if "i < length red" for i
  proof -
    from wr that eq have rw: "recordWritten E V 1 perfs i (red ! i) (redOut out ! i)"
      by simp
    then have p: "player (redOut out ! i) = player (red ! i)"
      by (simp add: recordWritten_def)
    have "\<exists>d. mmrDelta (redOut out ! i) = Some d \<and> d \<noteq> 0 \<and>
                (w = ''red'' \<longrightarrow> 2 \<le> d \<and> d \<le> 40) \<and>
                (w \<noteq> ''red'' \<longrightarrow> - 40 \<le> d \<and> d \<le> - 2)"
      if est: "prev (steamID (player (red ! i))) \<noteq> Null"
    proof -
      from rw est pv wV obtain d x where
        d: "mmrDelta (redOut out ! i) = Some d" and
        c: "d = clampMMRDelta (Math_round x) (isWinner_of w 1)"
        by (auto simp: recordWritten_def Let_def split: option.splits)
      have iw: "isWinner_of w 1 = (w = ''red'')"
        by (simp add: isWinner_of_def)
      have "d \<noteq> 0 \<and> (w = ''red'' \<longrightarrow> 2 \<le> d \<and> d \<le> 40) \<and>
            (w \<noteq> ''red'' \<longrightarrow> - 40 \<le> d \<and> d \<le> - 2)"
      proof (cases "w = ''red''")
        case True
        with c iw clampMMRDelta_bounds [of True "Math_round x"] show ?thesis
          by simp
      next
        case False
        with c iw clampMMRDelta_bounds [of False "Math_round x"] show ?thesis
          by simp
      qed
      with d show ?thesis by blast
    qed
    with p show ?thesis by blast
  qed
  have clamp: "2 \<le> clampMMRDelta x True \<and> clampMMRDelta x True \<le> 40 \<and>
          - 40 \<le> clampMMRDelta x False \<and> clampMMRDelta x False \<le> - 2" for x
    by (simp add: clampMMRDelta_def)
  from lb lr eq blue_ok red_ok clamp show ?thesis
    by simp
qed

theorem processMatch_delta_bounds_witness:
  "(\<exists>d. mmrDelta (blueOut out0 ! 1) = Some d \<and> 2 \<le> d \<and> d \<le> 40) \<and>
   (\<exists>d. mmrDelta (redOut out0 ! 0) = Some d \<and> - 40 \<le> d \<and> d \<le> - 2)"
  using processMatch_delta_bounds
    [OF processMatch_match0 organizeTeams_match0 determineWinner_match0]
  by (simp add: out0_def)


lemma teamRatings_blue0:
  "teamRatings env0 store0 [participation ''b1'' 2, participation ''b2'' 1] =
     Inr ([mkRating 25 5, mkRating 24 5], store0)"
  by (simp add: env0_def store0_def participation_def getOrCreatePlayerRating_def)

lemma teamRatings_red0:
  "teamRatings env0 store0 [participation ''r1'' 1, participation ''r2'' 1] =
     Inr ([mkRating 20 6, mkRating 25 8], store0(''r2'' \<mapsto> mkRating 25 8))"
  by (simp add: env0_def store0_def participation_def getOrCreatePlayerRating_def)

lemma scoreAll_match0:
  "scoreAll (calculateIndividualPerformance env0) match0 match0 Map.empty =
     Inr [''b1'' \<mapsto> \<lparr>score = 2, adjustment = 0\<rparr>, ''b2'' \<mapsto> \<lparr>score = 1, adjustment = 0\<rparr>,
          ''r1'' \<mapsto> \<lparr>score = 1, adjustment = 0\<rparr>, ''r2'' \<mapsto> \<lparr>score = 1, adjustment = 0\<rparr>]"
  by (simp add: env0_def match0_def participation_def scoreOfStats_def)


section \<open>The floor of the MMR\<close>




section \<open>First-match players\<close>

text \<open>
  C4. When \<open>processMatch\<close> returns, the record of every player whose previous
  match detail is \<open>null\<close> holds, as delta and as MMR after the match, the value
  of \<open>calculateInitialMMR\<close> for the player's new rating and performance. On that
  branch the callback calls nothing else: its result is the record with the two
  fields set, and the performances are left untouched.
\<close>

theorem processMatch_first_match:
  assumes "processMatch E store md prev = Inr out"
    and "organizeTeams E md = Inr (blue, red)"
    and "teamRatings E store blue = Inr (blueR, s1)"
    and "teamRatings E s1 red = Inr (redR, s2)"
    and "determineWinner E blue red = Inr w"
    and "scoreAll (calculateIndividualPerformance E) md md Map.empty = Inr perfs"
    and "newR = (if w = ''blue'' then rate E [blueR, redR] [1, 2] else rate E [blueR, redR] [2, 1])"
  shows
    "(\<forall>i < length blue. prev (steamID (player (blue ! i))) = Null \<longrightarrow>
        (\<exists>v. calculateInitialMMR E (newRatingAt newR 0 i) (perfs (steamID (player (blue ! i)))) = Inr v \<and>
             mmrDelta (blueOut out ! i) = Some v \<and> mmrAfterMatch (blueOut out ! i) = Some v)) \<and>
     (\<forall>i < length red. prev (steamID (player (red ! i))) = Null \<longrightarrow>
        (\<exists>v. calculateInitialMMR E (newRatingAt newR 1 i) (perfs (steamID (player (red ! i)))) = Inr v \<and>
             mmrDelta (redOut out ! i) = Some v \<and> mmrAfterMatch (redOut out ! i) = Some v)) \<and>
     (\<forall>V t team ps idx. previousMatchDetails V (steamID (player (team ! idx))) = Null \<longrightarrow>
        convertPlayer E V t team ps idx =
          (case calculateInitialMMR E (newRatingAt (newRatings V) t idx)
                  (ps (steamID (player (team ! idx)))) of
             Inl e \<Rightarrow> Inl e
           | Inr v \<Rightarrow> Inr ((team ! idx)\<lparr>mmrAfterMatch := Some v, mmrDelta := Some v\<rparr>, ps)))"
proof -
  from assms(1) obtain blue' red' blueR' s1' redR' s2' w' perfs' V where
    org: "organizeTeams E md = Inr (blue', red')" and
    tb: "teamRatings E store blue' = Inr (blueR', s1')" and
    tr: "teamRatings E s1' red' = Inr (redR', s2')" and
    win: "determineWinner E blue' red' = Inr w'" and
    sc: "scoreAll (calculateIndividualPerformance E) md md Map.empty = Inr perfs'" and
    V: "V = \<lparr>previousMatchDetails = prev, winner = w', blueRatings = blueR', redRatings = redR',
        newRatings = (if w' = ''blue'' then rate E [blueR', redR'] [1, 2] else rate E [blueR', redR'] [2, 1]),
        blueAvgSkill = calculateTeamSkill blueR', redAvgSkill = calculateTeamSkill redR',
        skillDifference = js_absdiff (calculateTeamSkill blueR') (calculateTeamSkill redR')\<rparr>" and
    wb: "\<forall>i < length blue'. recordWritten E V 0 perfs' i (blue' ! i) (blueOut out ! i)" and
    wr: "\<forall>i < length red'. recordWritten E V 1 perfs' i (red' ! i) (redOut out ! i)"
    by (elim processMatch_written) blast
  from org assms(2) have eq: "blue' = blue" "red' = red"
    by simp_all
  with tb assms(3) have eb: "blueR' = blueR" "s1' = s1"
    by simp_all
  with tr eq assms(4) have er: "redR' = redR"
    by simp
  from win eq assms(5) have w: "w' = w"
    by simp
  from sc assms(6) have p: "perfs' = perfs"
    by simp
  have pv: "previousMatchDetails V = prev" and nV: "newRatings V = newR"
    using V w eb er assms(7) by simp_all
  have first: "\<exists>v. calculateInitialMMR E (newRatingAt newR t i) (perfs (steamID (player orig))) = Inr v \<and>
             mmrDelta m = Some v \<and> mmrAfterMatch m = Some v"
    if "recordWritten E V t perfs i orig m" "prev (steamID (player orig)) = Null"
    for t i orig m
    using that pv nV
    by (auto simp: recordWritten_def Let_def split: sum.splits)
  show ?thesis
  proof (intro conjI allI impI)
    fix i
    assume "i < length blue" "prev (steamID (player (blue ! i))) = Null"
    with wb eq p first [of 0 i "blue ! i" "blueOut out ! i"]
    show "\<exists>v. calculateInitialMMR E (newRatingAt newR 0 i) (perfs (steamID (player (blue ! i)))) = Inr v \<and>
             mmrDelta (blueOut out ! i) = Some v \<and> mmrAfterMatch (blueOut out ! i) = Some v"
      by simp
  next
    fix i
    assume "i < length red" "prev (steamID (player (red ! i))) = Null"
    with wr eq p first [of 1 i "red ! i" "redOut out ! i"]
    show "\<exists>v. calculateInitialMMR E (newRatingAt newR 1 i) (perfs (steamID (player (red ! i)))) = Inr v \<and>
             mmrDelta (redOut out ! i) = Some v \<and> mmrAfterMatch (redOut out ! i) = Some v"
      by simp
  next
    fix V :: "'a scope" and t and team :: "'a MatchDetail list" and ps idx
    assume "previousMatchDetails V (steamID (player (team ! idx))) = Null"
    then show "convertPlayer E V t team ps idx =
          (case calculateInitialMMR E (newRatingAt (newRatings V) t idx)
                  (ps (steamID (player (team ! idx)))) of
             Inl e \<Rightarrow> Inl e
           | Inr v \<Rightarrow> Inr ((team ! idx)\<lparr>mmrAfterMatch := Some v, mmrDelta := Some v\<rparr>, ps))"
      by (rule convertPlayer_first)
  qed
qed

theorem processMatch_first_match_witness:
  "prev0 ''r2'' = Null \<and>
   calculateInitialMMR env0 (Some (mkRating 24 7)) (Some \<lparr>score = 1, adjustment = 0\<rparr>) = Inr 960 \<and>
   mmrDelta (redOut out0 ! 1) = Some 960 \<and> mmrAfterMatch (redOut out0 ! 1) = Some 960"
  using processMatch_first_match
    [OF processMatch_match0 organizeTeams_match0 teamRatings_blue0 teamRatings_red0
        determineWinner_match0 scoreAll_match0 refl]
  by (simp add: out0_def prev0_def env0_def mkRating_def)

section \<open>A rating missing from the oracle's answer\<close>

text \<open>
  The write-back loop skips a record whose new rating is missing: an id for which
  the oracle has returned nothing keeps its rating.
\<close>

lemma cacheTeam_missing:
  "\<forall>i < length team. steamID (player (team ! i)) = sid \<longrightarrow> newRatingAt newR t (idx + i) = None \<Longrightarrow>
   cacheTeam newR t idx team s sid = s sid"
proof (induction team arbitrary: idx s)
  case Nil
  then show ?case by simp
next
  case (Cons m ms)
  have rest: "\<forall>i < length ms. steamID (player (ms ! i)) = sid \<longrightarrow> newRatingAt newR t (Suc idx + i) = None"
    using Cons.prems by fastforce
  have head: "steamID (player m) = sid \<longrightarrow> newRatingAt newR t idx = None"
    using Cons.prems by fastforce
  show ?case
    using Cons.IH [OF rest] head by (auto split: option.splits)
qed

text \<open>
  C9 at a concrete match. The oracle returns no rating for the blue team of the
  one-against-one match. The write-back leaves the rating of \<open>b1\<close> as it was and
  stores the new rating of \<open>r1\<close>; the second loop then reads \<open>newRating.mu\<close> of
  the missing rating of \<open>b1\<close>, an established player, and \<open>processMatch\<close> ends
  with a TypeError for the whole match.
\<close>

theorem processMatch_short_oracle:
  "cacheRatings (rate env9 [[mkRating 25 5], [mkRating 20 6]] [1, 2])
     [participation ''b1'' 2] [participation ''r1'' 1] store0 ''b1'' = store0 ''b1'' \<and>
   cacheRatings (rate env9 [[mkRating 25 5], [mkRating 20 6]] [1, 2])
     [participation ''b1'' 2] [participation ''r1'' 1] store0 ''r1'' = Some (mkRating 19 5) \<and>
   processMatch env9 store0 match9 prev0 = Inl TypeError"
  by (simp add: eval_defs env9_def env0_def match9_def)


end
